theory Spec2Isabelle
  imports Main "HOL-Library.AList" "HOL-Library.Multiset"
begin

section \<open>Values and maps of the Go runtime\<close>

text \<open>
  A value of Go's \<^verbatim>\<open>any\<close> as the JSON decoder produces it for a call's arguments.
  Only the dynamic type matters to the router (the assertion \<^verbatim>\<open>actionRaw.(string)\<close>), so
  a number is kept as an integer although the decoder makes it a \<^verbatim>\<open>float64\<close>.
\<close>

datatype any =
    AnyNil
  | AnyBool bool
  | AnyNumber int
  | AnyString string
  | AnyArray "any list"
  | AnyObject "string \<Rightarrow> any option"

text \<open>
  A Go map whose keys are enumerated is kept as an association list with one pair
  per key. \<^verbatim>\<open>m[k] = v\<close> is \<open>AList.update k v m\<close>, \<^verbatim>\<open>v, ok := m[k]\<close> is
  \<open>map_of m k\<close>, \<^verbatim>\<open>delete(m, k)\<close> is \<open>AList.delete k m\<close>. The order in which
  \<^verbatim>\<open>for k := range m\<close> visits the keys is chosen by the runtime; the functions that
  range over a map take that choice as the argument \<open>rangeOrder\<close>.
\<close>

type_synonym ('k, 'v) gomap = "('k \<times> 'v) list"

text \<open>\<^verbatim>\<open>strings.Join(elems, sep)\<close>\<close>

fun Join :: "string list \<Rightarrow> string \<Rightarrow> string" where
  "Join [] sep = []"
| "Join [x] sep = x"
| "Join (x # y # ys) sep = x @ sep @ Join (y # ys) sep"

section \<open>The mcp-go library: requests, results, tools\<close>

text \<open>
  The types and functions of \<^verbatim>\<open>github.com/mark3labs/mcp-go\<close> that the registration and the
  router call. The library is a dependency, not part of the repository; each function
  is given as far as the registration and the tests observe it.
\<close>

record CallToolRequest =
  ToolName :: string
  Arguments :: any

text \<open>\<^verbatim>\<open>GetArguments\<close>: the arguments when they are a JSON object, the nil map otherwise.\<close>

definition GetArguments :: "CallToolRequest \<Rightarrow> string \<Rightarrow> any option" where
  "GetArguments request = (case Arguments request of AnyObject m \<Rightarrow> m | _ \<Rightarrow> Map.empty)"

datatype Content = TextContent string

record CallToolResult =
  Content :: "Content list"
  IsError :: bool

definition NewToolResultText :: "string \<Rightarrow> CallToolResult" where
  "NewToolResultText text = \<lparr>Content = [TextContent text], IsError = False\<rparr>"

definition NewToolResultError :: "string \<Rightarrow> CallToolResult" where
  "NewToolResultError text = \<lparr>Content = [TextContent text], IsError = True\<rparr>"

text \<open>
  \<^verbatim>\<open>server.ToolHandlerFunc\<close>: a handler takes the caller's context and the request and
  returns a result pointer and a Go error (\<open>None\<close> is nil). What a handler does to
  the outside (the backend it calls) is the change of the world \<open>'w\<close> it returns.
\<close>

type_synonym ('c, 'e, 'w) ToolHandlerFunc =
  "'c \<Rightarrow> CallToolRequest \<Rightarrow> 'w \<Rightarrow> (CallToolResult option \<times> 'e option) \<times> 'w"

record ToolAnnotation =
  Title :: string
  ReadOnlyHint :: "bool option"
  DestructiveHint :: "bool option"
  IdempotentHint :: "bool option"
  OpenWorldHint :: "bool option"

record ToolInputSchema =
  Type :: string
  Properties :: "(string, (string, any) gomap) gomap"
  Required :: "string list"

record Tool =
  Name :: string
  Description :: string
  InputSchema :: ToolInputSchema
  Annotations :: ToolAnnotation

text \<open>\<^verbatim>\<open>mcp.NewTool(name, opts...)\<close> and the options the registration uses.\<close>

definition NewTool :: "string \<Rightarrow> (Tool \<Rightarrow> Tool) list \<Rightarrow> Tool" where
  "NewTool name opts =
     fold (\<lambda>opt t. opt t) opts
       \<lparr>Name = name, Description = [],
        InputSchema = \<lparr>Type = ''object'', Properties = [], Required = []\<rparr>,
        Annotations = \<lparr>Title = [], ReadOnlyHint = Some False, DestructiveHint = Some True,
          IdempotentHint = Some False, OpenWorldHint = Some True\<rparr>\<rparr>"

definition WithDescription :: "string \<Rightarrow> Tool \<Rightarrow> Tool" where
  "WithDescription d t = t\<lparr>Description := d\<rparr>"

definition WithToolAnnotation :: "ToolAnnotation \<Rightarrow> Tool \<Rightarrow> Tool" where
  "WithToolAnnotation a t = t\<lparr>Annotations := a\<rparr>"

text \<open>Property options: \<^verbatim>\<open>mcp.Required()\<close>, \<^verbatim>\<open>mcp.Description(d)\<close>, \<^verbatim>\<open>mcp.Enum(vs...)\<close>.\<close>

definition RequiredOpt :: "(string, any) gomap \<Rightarrow> (string, any) gomap" where
  "RequiredOpt schema = AList.update ''required'' (AnyBool True) schema"

definition DescriptionOpt :: "string \<Rightarrow> (string, any) gomap \<Rightarrow> (string, any) gomap" where
  "DescriptionOpt d schema = AList.update ''description'' (AnyString d) schema"

definition EnumOpt :: "string list \<Rightarrow> (string, any) gomap \<Rightarrow> (string, any) gomap" where
  "EnumOpt vs schema = AList.update ''enum'' (AnyArray (map AnyString vs)) schema"

definition WithString ::
  "string \<Rightarrow> ((string, any) gomap \<Rightarrow> (string, any) gomap) list \<Rightarrow> Tool \<Rightarrow> Tool" where
  "WithString name opts t =
     (let schema = fold (\<lambda>opt s. opt s) opts [(''type'', AnyString ''string'')] in
      if map_of schema ''required'' = Some (AnyBool True)
      then t\<lparr>InputSchema := (InputSchema t)
             \<lparr>Required := Required (InputSchema t) @ [name],
              Properties := AList.update name (AList.delete ''required'' schema)
                              (Properties (InputSchema t))\<rparr>\<rparr>
      else t\<lparr>InputSchema := (InputSchema t)
             \<lparr>Properties := AList.update name schema (Properties (InputSchema t))\<rparr>\<rparr>)"

record 'h ServerTool =
  Tool :: Tool
  Handler :: 'h

record 'h MCPServer =
  tools :: "(string, 'h ServerTool) gomap"

text \<open>\<^verbatim>\<open>AddTool\<close> stores the tool and its handler under the tool's name.\<close>

definition AddTool :: "'h MCPServer \<Rightarrow> Tool \<Rightarrow> 'h \<Rightarrow> 'h MCPServer" where
  "AddTool srv tool h = srv\<lparr>tools := AList.update (Name tool) \<lparr>Tool = tool, Handler = h\<rparr> (tools srv)\<rparr>"

section \<open>The catalog: \<^verbatim>\<open>metaAction\<close>, \<^verbatim>\<open>metaToolDef\<close>, \<^verbatim>\<open>metaToolDefinitions\<close>\<close>

text \<open>
  An action's handler is a function from the server pointer \<open>'p\<close> to the handler
  \<open>'h\<close> bound to that server.
\<close>

record ('p, 'h) metaAction =
  name :: string
  handler :: "'p \<Rightarrow> 'h"
  readOnly :: bool

record ('p, 'h) metaToolDef =
  name :: string
  description :: string
  actions :: "('p, 'h) metaAction list"
  annotation :: ToolAnnotation

definition boolPtr :: "bool \<Rightarrow> bool option" where
  "boolPtr v = Some v"

text \<open>
  The 15 groups. The handlers are method expressions
  \<^verbatim>\<open>(*PortainerMCPServer).HandleX\<close>; \<open>meth\<close> maps a method's name to the method.
\<close>

definition metaToolDefinitions :: "(string \<Rightarrow> 'p \<Rightarrow> 'h) \<Rightarrow> ('p, 'h) metaToolDef list" where
  "metaToolDefinitions meth = [
   \<lparr>metaToolDef.name = ''manage_environments'',
    description = ''Manage Portainer environments (endpoints), environment groups, and environment tags. Use the '' @ [CHR 0x27] @ ''action'' @ [CHR 0x27] @ '' parameter to specify the operation.'',
    actions = [
      \<lparr>metaAction.name = ''list_environments'', handler = meth ''HandleGetEnvironments'', metaAction.readOnly = True\<rparr>,
      \<lparr>metaAction.name = ''get_environment'', handler = meth ''HandleGetEnvironment'', metaAction.readOnly = True\<rparr>,
      \<lparr>metaAction.name = ''delete_environment'', handler = meth ''HandleDeleteEnvironment'', metaAction.readOnly = False\<rparr>,
      \<lparr>metaAction.name = ''snapshot_environment'', handler = meth ''HandleSnapshotEnvironment'', metaAction.readOnly = False\<rparr>,
      \<lparr>metaAction.name = ''snapshot_all_environments'', handler = meth ''HandleSnapshotAllEnvironments'', metaAction.readOnly = False\<rparr>,
      \<lparr>metaAction.name = ''update_environment_tags'', handler = meth ''HandleUpdateEnvironmentTags'', metaAction.readOnly = False\<rparr>,
      \<lparr>metaAction.name = ''update_environment_user_accesses'', handler = meth ''HandleUpdateEnvironmentUserAccesses'', metaAction.readOnly = False\<rparr>,
      \<lparr>metaAction.name = ''update_environment_team_accesses'', handler = meth ''HandleUpdateEnvironmentTeamAccesses'', metaAction.readOnly = False\<rparr>,
      \<lparr>metaAction.name = ''list_environment_groups'', handler = meth ''HandleGetEnvironmentGroups'', metaAction.readOnly = True\<rparr>,
      \<lparr>metaAction.name = ''create_environment_group'', handler = meth ''HandleCreateEnvironmentGroup'', metaAction.readOnly = False\<rparr>,
      \<lparr>metaAction.name = ''update_environment_group_name'', handler = meth ''HandleUpdateEnvironmentGroupName'', metaAction.readOnly = False\<rparr>,
      \<lparr>metaAction.name = ''update_environment_group_environments'', handler = meth ''HandleUpdateEnvironmentGroupEnvironments'', metaAction.readOnly = False\<rparr>,
      \<lparr>metaAction.name = ''update_environment_group_tags'', handler = meth ''HandleUpdateEnvironmentGroupTags'', metaAction.readOnly = False\<rparr>,
      \<lparr>metaAction.name = ''list_environment_tags'', handler = meth ''HandleGetEnvironmentTags'', metaAction.readOnly = True\<rparr>,
      \<lparr>metaAction.name = ''create_environment_tag'', handler = meth ''HandleCreateEnvironmentTag'', metaAction.readOnly = False\<rparr>,
      \<lparr>metaAction.name = ''delete_environment_tag'', handler = meth ''HandleDeleteEnvironmentTag'', metaAction.readOnly = False\<rparr>],
    annotation = \<lparr>Title = ''Manage Environments'', ReadOnlyHint = boolPtr False, DestructiveHint = boolPtr True,
      IdempotentHint = boolPtr False, OpenWorldHint = boolPtr False\<rparr>\<rparr>,
   \<lparr>metaToolDef.name = ''manage_stacks'',
    description = ''Manage Portainer stacks (Docker Compose and Edge stacks). Use the '' @ [CHR 0x27] @ ''action'' @ [CHR 0x27] @ '' parameter to specify the operation.'',
    actions = [
      \<lparr>metaAction.name = ''list_stacks'', handler = meth ''HandleGetStacks'', metaAction.readOnly = True\<rparr>,
      \<lparr>metaAction.name = ''list_regular_stacks'', handler = meth ''HandleListRegularStacks'', metaAction.readOnly = True\<rparr>,
      \<lparr>metaAction.name = ''get_stack'', handler = meth ''HandleInspectStack'', metaAction.readOnly = True\<rparr>,
      \<lparr>metaAction.name = ''get_stack_file'', handler = meth ''HandleGetStackFile'', metaAction.readOnly = True\<rparr>,
      \<lparr>metaAction.name = ''inspect_stack_file'', handler = meth ''HandleInspectStackFile'', metaAction.readOnly = True\<rparr>,
      \<lparr>metaAction.name = ''create_stack'', handler = meth ''HandleCreateStack'', metaAction.readOnly = False\<rparr>,
      \<lparr>metaAction.name = ''update_stack'', handler = meth ''HandleUpdateStack'', metaAction.readOnly = False\<rparr>,
      \<lparr>metaAction.name = ''delete_stack'', handler = meth ''HandleDeleteStack'', metaAction.readOnly = False\<rparr>,
      \<lparr>metaAction.name = ''update_stack_git'', handler = meth ''HandleUpdateStackGit'', metaAction.readOnly = False\<rparr>,
      \<lparr>metaAction.name = ''redeploy_stack_git'', handler = meth ''HandleRedeployStackGit'', metaAction.readOnly = False\<rparr>,
      \<lparr>metaAction.name = ''start_stack'', handler = meth ''HandleStartStack'', metaAction.readOnly = False\<rparr>,
      \<lparr>metaAction.name = ''stop_stack'', handler = meth ''HandleStopStack'', metaAction.readOnly = False\<rparr>,
      \<lparr>metaAction.name = ''migrate_stack'', handler = meth ''HandleMigrateStack'', metaAction.readOnly = False\<rparr>],
    annotation = \<lparr>Title = ''Manage Stacks'', ReadOnlyHint = boolPtr False, DestructiveHint = boolPtr True,
      IdempotentHint = boolPtr False, OpenWorldHint = boolPtr False\<rparr>\<rparr>,
   \<lparr>metaToolDef.name = ''manage_access_groups'',
    description = ''Manage Portainer access groups and their user/team access policies. Use the '' @ [CHR 0x27] @ ''action'' @ [CHR 0x27] @ '' parameter to specify the operation.'',
    actions = [
      \<lparr>metaAction.name = ''list_access_groups'', handler = meth ''HandleGetAccessGroups'', metaAction.readOnly = True\<rparr>,
      \<lparr>metaAction.name = ''create_access_group'', handler = meth ''HandleCreateAccessGroup'', metaAction.readOnly = False\<rparr>,
      \<lparr>metaAction.name = ''update_access_group_name'', handler = meth ''HandleUpdateAccessGroupName'', metaAction.readOnly = False\<rparr>,
      \<lparr>metaAction.name = ''update_access_group_user_accesses'', handler = meth ''HandleUpdateAccessGroupUserAccesses'', metaAction.readOnly = False\<rparr>,
      \<lparr>metaAction.name = ''update_access_group_team_accesses'', handler = meth ''HandleUpdateAccessGroupTeamAccesses'', metaAction.readOnly = False\<rparr>,
      \<lparr>metaAction.name = ''add_environment_to_access_group'', handler = meth ''HandleAddEnvironmentToAccessGroup'', metaAction.readOnly = False\<rparr>,
      \<lparr>metaAction.name = ''remove_environment_from_access_group'', handler = meth ''HandleRemoveEnvironmentFromAccessGroup'', metaAction.readOnly = False\<rparr>],
    annotation = \<lparr>Title = ''Manage Access Groups'', ReadOnlyHint = boolPtr False, DestructiveHint = boolPtr True,
      IdempotentHint = boolPtr False, OpenWorldHint = boolPtr False\<rparr>\<rparr>,
   \<lparr>metaToolDef.name = ''manage_users'',
    description = ''Manage Portainer users. Use the '' @ [CHR 0x27] @ ''action'' @ [CHR 0x27] @ '' parameter to specify the operation.'',
    actions = [
      \<lparr>metaAction.name = ''list_users'', handler = meth ''HandleGetUsers'', metaAction.readOnly = True\<rparr>,
      \<lparr>metaAction.name = ''get_user'', handler = meth ''HandleGetUser'', metaAction.readOnly = True\<rparr>,
      \<lparr>metaAction.name = ''create_user'', handler = meth ''HandleCreateUser'', metaAction.readOnly = False\<rparr>,
      \<lparr>metaAction.name = ''delete_user'', handler = meth ''HandleDeleteUser'', metaAction.readOnly = False\<rparr>,
      \<lparr>metaAction.name = ''update_user_role'', handler = meth ''HandleUpdateUserRole'', metaAction.readOnly = False\<rparr>],
    annotation = \<lparr>Title = ''Manage Users'', ReadOnlyHint = boolPtr False, DestructiveHint = boolPtr True,
      IdempotentHint = boolPtr False, OpenWorldHint = boolPtr False\<rparr>\<rparr>,
   \<lparr>metaToolDef.name = ''manage_teams'',
    description = ''Manage Portainer teams and team membership. Use the '' @ [CHR 0x27] @ ''action'' @ [CHR 0x27] @ '' parameter to specify the operation.'',
    actions = [
      \<lparr>metaAction.name = ''list_teams'', handler = meth ''HandleGetTeams'', metaAction.readOnly = True\<rparr>,
      \<lparr>metaAction.name = ''get_team'', handler = meth ''HandleGetTeam'', metaAction.readOnly = True\<rparr>,
      \<lparr>metaAction.name = ''create_team'', handler = meth ''HandleCreateTeam'', metaAction.readOnly = False\<rparr>,
      \<lparr>metaAction.name = ''delete_team'', handler = meth ''HandleDeleteTeam'', metaAction.readOnly = False\<rparr>,
      \<lparr>metaAction.name = ''update_team_name'', handler = meth ''HandleUpdateTeamName'', metaAction.readOnly = False\<rparr>,
      \<lparr>metaAction.name = ''update_team_members'', handler = meth ''HandleUpdateTeamMembers'', metaAction.readOnly = False\<rparr>],
    annotation = \<lparr>Title = ''Manage Teams'', ReadOnlyHint = boolPtr False, DestructiveHint = boolPtr True,
      IdempotentHint = boolPtr False, OpenWorldHint = boolPtr False\<rparr>\<rparr>,
   \<lparr>metaToolDef.name = ''manage_docker'',
    description = ''Interact with Docker environments via proxy API calls and dashboards. Use the '' @ [CHR 0x27] @ ''action'' @ [CHR 0x27] @ '' parameter to specify the operation.'',
    actions = [
      \<lparr>metaAction.name = ''get_docker_dashboard'', handler = meth ''HandleGetDockerDashboard'', metaAction.readOnly = True\<rparr>,
      \<lparr>metaAction.name = ''docker_proxy'', handler = meth ''HandleDockerProxy'', metaAction.readOnly = False\<rparr>],
    annotation = \<lparr>Title = ''Manage Docker'', ReadOnlyHint = boolPtr False, DestructiveHint = boolPtr True,
      IdempotentHint = boolPtr False, OpenWorldHint = boolPtr True\<rparr>\<rparr>,
   \<lparr>metaToolDef.name = ''manage_kubernetes'',
    description = ''Interact with Kubernetes environments via proxy API calls, dashboards, namespaces, and kubeconfig. Use the '' @ [CHR 0x27] @ ''action'' @ [CHR 0x27] @ '' parameter to specify the operation.'',
    actions = [
      \<lparr>metaAction.name = ''get_kubernetes_resource_stripped'', handler = meth ''HandleKubernetesProxyStripped'', metaAction.readOnly = True\<rparr>,
      \<lparr>metaAction.name = ''get_kubernetes_dashboard'', handler = meth ''HandleGetKubernetesDashboard'', metaAction.readOnly = True\<rparr>,
      \<lparr>metaAction.name = ''list_kubernetes_namespaces'', handler = meth ''HandleListKubernetesNamespaces'', metaAction.readOnly = True\<rparr>,
      \<lparr>metaAction.name = ''get_kubernetes_config'', handler = meth ''HandleGetKubernetesConfig'', metaAction.readOnly = True\<rparr>,
      \<lparr>metaAction.name = ''kubernetes_proxy'', handler = meth ''HandleKubernetesProxy'', metaAction.readOnly = False\<rparr>],
    annotation = \<lparr>Title = ''Manage Kubernetes'', ReadOnlyHint = boolPtr False, DestructiveHint = boolPtr True,
      IdempotentHint = boolPtr False, OpenWorldHint = boolPtr True\<rparr>\<rparr>,
   \<lparr>metaToolDef.name = ''manage_helm'',
    description = ''Manage Helm repositories, charts, and releases. Use the '' @ [CHR 0x27] @ ''action'' @ [CHR 0x27] @ '' parameter to specify the operation.'',
    actions = [
      \<lparr>metaAction.name = ''list_helm_repositories'', handler = meth ''HandleListHelmRepositories'', metaAction.readOnly = True\<rparr>,
      \<lparr>metaAction.name = ''search_helm_charts'', handler = meth ''HandleSearchHelmCharts'', metaAction.readOnly = True\<rparr>,
      \<lparr>metaAction.name = ''list_helm_releases'', handler = meth ''HandleListHelmReleases'', metaAction.readOnly = True\<rparr>,
      \<lparr>metaAction.name = ''get_helm_release_history'', handler = meth ''HandleGetHelmReleaseHistory'', metaAction.readOnly = True\<rparr>,
      \<lparr>metaAction.name = ''add_helm_repository'', handler = meth ''HandleAddHelmRepository'', metaAction.readOnly = False\<rparr>,
      \<lparr>metaAction.name = ''remove_helm_repository'', handler = meth ''HandleRemoveHelmRepository'', metaAction.readOnly = False\<rparr>,
      \<lparr>metaAction.name = ''install_helm_chart'', handler = meth ''HandleInstallHelmChart'', metaAction.readOnly = False\<rparr>,
      \<lparr>metaAction.name = ''delete_helm_release'', handler = meth ''HandleDeleteHelmRelease'', metaAction.readOnly = False\<rparr>],
    annotation = \<lparr>Title = ''Manage Helm'', ReadOnlyHint = boolPtr False, DestructiveHint = boolPtr True,
      IdempotentHint = boolPtr False, OpenWorldHint = boolPtr False\<rparr>\<rparr>,
   \<lparr>metaToolDef.name = ''manage_registries'',
    description = ''Manage Docker registries (Quay, Azure, DockerHub, GitLab, ECR, custom). Use the '' @ [CHR 0x27] @ ''action'' @ [CHR 0x27] @ '' parameter to specify the operation.'',
    actions = [
      \<lparr>metaAction.name = ''list_registries'', handler = meth ''HandleListRegistries'', metaAction.readOnly = True\<rparr>,
      \<lparr>metaAction.name = ''get_registry'', handler = meth ''HandleGetRegistry'', metaAction.readOnly = True\<rparr>,
      \<lparr>metaAction.name = ''create_registry'', handler = meth ''HandleCreateRegistry'', metaAction.readOnly = False\<rparr>,
      \<lparr>metaAction.name = ''update_registry'', handler = meth ''HandleUpdateRegistry'', metaAction.readOnly = False\<rparr>,
      \<lparr>metaAction.name = ''delete_registry'', handler = meth ''HandleDeleteRegistry'', metaAction.readOnly = False\<rparr>],
    annotation = \<lparr>Title = ''Manage Registries'', ReadOnlyHint = boolPtr False, DestructiveHint = boolPtr True,
      IdempotentHint = boolPtr False, OpenWorldHint = boolPtr False\<rparr>\<rparr>,
   \<lparr>metaToolDef.name = ''manage_templates'',
    description = ''Manage custom templates and application templates. Use the '' @ [CHR 0x27] @ ''action'' @ [CHR 0x27] @ '' parameter to specify the operation.'',
    actions = [
      \<lparr>metaAction.name = ''list_custom_templates'', handler = meth ''HandleListCustomTemplates'', metaAction.readOnly = True\<rparr>,
      \<lparr>metaAction.name = ''get_custom_template'', handler = meth ''HandleGetCustomTemplate'', metaAction.readOnly = True\<rparr>,
      \<lparr>metaAction.name = ''get_custom_template_file'', handler = meth ''HandleGetCustomTemplateFile'', metaAction.readOnly = True\<rparr>,
      \<lparr>metaAction.name = ''create_custom_template'', handler = meth ''HandleCreateCustomTemplate'', metaAction.readOnly = False\<rparr>,
      \<lparr>metaAction.name = ''delete_custom_template'', handler = meth ''HandleDeleteCustomTemplate'', metaAction.readOnly = False\<rparr>,
      \<lparr>metaAction.name = ''list_app_templates'', handler = meth ''HandleListAppTemplates'', metaAction.readOnly = True\<rparr>,
      \<lparr>metaAction.name = ''get_app_template_file'', handler = meth ''HandleGetAppTemplateFile'', metaAction.readOnly = True\<rparr>],
    annotation = \<lparr>Title = ''Manage Templates'', ReadOnlyHint = boolPtr False, DestructiveHint = boolPtr True,
      IdempotentHint = boolPtr False, OpenWorldHint = boolPtr False\<rparr>\<rparr>,
   \<lparr>metaToolDef.name = ''manage_backups'',
    description = ''Manage Portainer server backups (local and S3). Use the '' @ [CHR 0x27] @ ''action'' @ [CHR 0x27] @ '' parameter to specify the operation.'',
    actions = [
      \<lparr>metaAction.name = ''get_backup_status'', handler = meth ''HandleGetBackupStatus'', metaAction.readOnly = True\<rparr>,
      \<lparr>metaAction.name = ''get_backup_s3_settings'', handler = meth ''HandleGetBackupS3Settings'', metaAction.readOnly = True\<rparr>,
      \<lparr>metaAction.name = ''create_backup'', handler = meth ''HandleCreateBackup'', metaAction.readOnly = False\<rparr>,
      \<lparr>metaAction.name = ''backup_to_s3'', handler = meth ''HandleBackupToS3'', metaAction.readOnly = False\<rparr>,
      \<lparr>metaAction.name = ''restore_from_s3'', handler = meth ''HandleRestoreFromS3'', metaAction.readOnly = False\<rparr>],
    annotation = \<lparr>Title = ''Manage Backups'', ReadOnlyHint = boolPtr False, DestructiveHint = boolPtr True,
      IdempotentHint = boolPtr False, OpenWorldHint = boolPtr False\<rparr>\<rparr>,
   \<lparr>metaToolDef.name = ''manage_webhooks'',
    description = ''Manage webhooks for services and containers. Use the '' @ [CHR 0x27] @ ''action'' @ [CHR 0x27] @ '' parameter to specify the operation.'',
    actions = [
      \<lparr>metaAction.name = ''list_webhooks'', handler = meth ''HandleListWebhooks'', metaAction.readOnly = True\<rparr>,
      \<lparr>metaAction.name = ''create_webhook'', handler = meth ''HandleCreateWebhook'', metaAction.readOnly = False\<rparr>,
      \<lparr>metaAction.name = ''delete_webhook'', handler = meth ''HandleDeleteWebhook'', metaAction.readOnly = False\<rparr>],
    annotation = \<lparr>Title = ''Manage Webhooks'', ReadOnlyHint = boolPtr False, DestructiveHint = boolPtr True,
      IdempotentHint = boolPtr False, OpenWorldHint = boolPtr False\<rparr>\<rparr>,
   \<lparr>metaToolDef.name = ''manage_edge'',
    description = ''Manage Edge jobs and Edge update schedules. Use the '' @ [CHR 0x27] @ ''action'' @ [CHR 0x27] @ '' parameter to specify the operation.'',
    actions = [
      \<lparr>metaAction.name = ''list_edge_jobs'', handler = meth ''HandleListEdgeJobs'', metaAction.readOnly = True\<rparr>,
      \<lparr>metaAction.name = ''get_edge_job'', handler = meth ''HandleGetEdgeJob'', metaAction.readOnly = True\<rparr>,
      \<lparr>metaAction.name = ''get_edge_job_file'', handler = meth ''HandleGetEdgeJobFile'', metaAction.readOnly = True\<rparr>,
      \<lparr>metaAction.name = ''create_edge_job'', handler = meth ''HandleCreateEdgeJob'', metaAction.readOnly = False\<rparr>,
      \<lparr>metaAction.name = ''delete_edge_job'', handler = meth ''HandleDeleteEdgeJob'', metaAction.readOnly = False\<rparr>,
      \<lparr>metaAction.name = ''list_edge_update_schedules'', handler = meth ''HandleListEdgeUpdateSchedules'', metaAction.readOnly = True\<rparr>],
    annotation = \<lparr>Title = ''Manage Edge'', ReadOnlyHint = boolPtr False, DestructiveHint = boolPtr True,
      IdempotentHint = boolPtr False, OpenWorldHint = boolPtr False\<rparr>\<rparr>,
   \<lparr>metaToolDef.name = ''manage_settings'',
    description = ''Manage Portainer server settings, public settings, and SSL configuration. Use the '' @ [CHR 0x27] @ ''action'' @ [CHR 0x27] @ '' parameter to specify the operation.'',
    actions = [
      \<lparr>metaAction.name = ''get_settings'', handler = meth ''HandleGetSettings'', metaAction.readOnly = True\<rparr>,
      \<lparr>metaAction.name = ''get_public_settings'', handler = meth ''HandleGetPublicSettings'', metaAction.readOnly = True\<rparr>,
      \<lparr>metaAction.name = ''update_settings'', handler = meth ''HandleUpdateSettings'', metaAction.readOnly = False\<rparr>,
      \<lparr>metaAction.name = ''get_ssl_settings'', handler = meth ''HandleGetSSLSettings'', metaAction.readOnly = True\<rparr>,
      \<lparr>metaAction.name = ''update_ssl_settings'', handler = meth ''HandleUpdateSSLSettings'', metaAction.readOnly = False\<rparr>],
    annotation = \<lparr>Title = ''Manage Settings'', ReadOnlyHint = boolPtr False, DestructiveHint = boolPtr False,
      IdempotentHint = boolPtr True, OpenWorldHint = boolPtr False\<rparr>\<rparr>,
   \<lparr>metaToolDef.name = ''manage_system'',
    description = ''System information, roles, message of the day, and authentication. Use the '' @ [CHR 0x27] @ ''action'' @ [CHR 0x27] @ '' parameter to specify the operation.'',
    actions = [
      \<lparr>metaAction.name = ''get_system_status'', handler = meth ''HandleGetSystemStatus'', metaAction.readOnly = True\<rparr>,
      \<lparr>metaAction.name = ''list_roles'', handler = meth ''HandleListRoles'', metaAction.readOnly = True\<rparr>,
      \<lparr>metaAction.name = ''get_motd'', handler = meth ''HandleGetMOTD'', metaAction.readOnly = True\<rparr>,
      \<lparr>metaAction.name = ''authenticate'', handler = meth ''HandleAuthenticateUser'', metaAction.readOnly = True\<rparr>,
      \<lparr>metaAction.name = ''logout'', handler = meth ''HandleLogout'', metaAction.readOnly = False\<rparr>],
    annotation = \<lparr>Title = ''Manage System'', ReadOnlyHint = boolPtr False, DestructiveHint = boolPtr False,
      IdempotentHint = boolPtr False, OpenWorldHint = boolPtr False\<rparr>\<rparr>]"

section \<open>Registration and routing\<close>

text \<open>
  The server. The declaration of the struct is not among the sources; the fields are
  those \<^verbatim>\<open>registerOneMetaTool\<close> reads and the tests' \<^verbatim>\<open>newTestMetaServer\<close> sets: \<open>srv\<close>, the MCP
  server the tools are registered on, and \<open>readOnly\<close>, the mode. \<open>self\<close> is the pointer
  \<^verbatim>\<open>s\<close> the methods are called on, which is what the handler functions of the catalog
  are applied to.
\<close>

record ('p, 'h) PortainerMCPServer =
  self :: 'p
  srv :: "'h MCPServer"
  readOnly :: bool

text \<open>The router built for one meta-tool.\<close>

definition makeMetaHandler ::
  "('w \<Rightarrow> string list \<Rightarrow> string list) \<Rightarrow> string \<Rightarrow>
   (string, ('c, 'e, 'w) ToolHandlerFunc) gomap \<Rightarrow> ('c, 'e, 'w) ToolHandlerFunc" where
  "makeMetaHandler rangeOrder metaToolName handlers = (\<lambda>ctx request w.
     case GetArguments request ''action'' of
       None \<Rightarrow> ((Some (NewToolResultError ''missing required parameter: action''), None), w)
     | Some actionRaw \<Rightarrow>
         (case actionRaw of
            AnyString action \<Rightarrow>
              if action = []
              then ((Some (NewToolResultError
                      (''parameter '' @ [CHR 0x27] @ ''action'' @ [CHR 0x27] @
                       '' must be a non-empty string'')), None), w)
              else
                (case map_of handlers action of
                   None \<Rightarrow>
                     (let available = rangeOrder w (map fst handlers) in
                      ((Some (NewToolResultError
                          (''unknown action '' @ [CHR 0x27] @ action @ [CHR 0x27] @
                           '' for tool '' @ [CHR 0x27] @ metaToolName @ [CHR 0x27] @
                           ''. Available actions: '' @ Join available '', '')), None), w))
                 | Some hnd \<Rightarrow> hnd ctx request w)
          | _ \<Rightarrow>
              ((Some (NewToolResultError
                  (''parameter '' @ [CHR 0x27] @ ''action'' @ [CHR 0x27] @
                   '' must be a non-empty string'')), None), w)))"

text \<open>The first loop of \<^verbatim>\<open>registerOneMetaTool\<close>: the actions the mode permits.\<close>

fun filterActions ::
  "bool \<Rightarrow> ('p, 'h) metaAction list \<Rightarrow> ('p, 'h) metaAction list \<Rightarrow> ('p, 'h) metaAction list" where
  "filterActions ro [] available = available"
| "filterActions ro (a # as) available =
     (if ro \<and> \<not> metaAction.readOnly a then filterActions ro as available
      else filterActions ro as (available @ [a]))"

text \<open>
  The second loop: \<^verbatim>\<open>actionNames[i] = a.name; handlers[a.name] = a.handler(s)\<close>, from
  index \<open>i\<close> on.
\<close>

fun buildDispatch ::
  "'p \<Rightarrow> nat \<Rightarrow> ('p, 'h) metaAction list \<Rightarrow> string list \<times> (string, 'h) gomap \<Rightarrow>
   string list \<times> (string, 'h) gomap" where
  "buildDispatch s i [] (actionNames, handlers) = (actionNames, handlers)"
| "buildDispatch s i (a # as) (actionNames, handlers) =
     buildDispatch s (Suc i) as
       (actionNames[i := metaAction.name a],
        AList.update (metaAction.name a) (handler a s) handlers)"

text \<open>The third loop: stops at the first action that is not read-only.\<close>

fun allReadOnly :: "('p, 'h) metaAction list \<Rightarrow> bool" where
  "allReadOnly [] = True"
| "allReadOnly (a # as) = (if \<not> metaAction.readOnly a then False else allReadOnly as)"

definition registerOneMetaTool ::
  "('w \<Rightarrow> string list \<Rightarrow> string list) \<Rightarrow> ('p, ('c, 'e, 'w) ToolHandlerFunc) PortainerMCPServer \<Rightarrow>
   ('p, ('c, 'e, 'w) ToolHandlerFunc) metaToolDef \<Rightarrow>
   ('p, ('c, 'e, 'w) ToolHandlerFunc) PortainerMCPServer" where
  "registerOneMetaTool rangeOrder s def =
     (let available = filterActions (readOnly s) (actions def) [] in
      if length available = 0 then s
      else
        let (actionNames, handlers) =
              buildDispatch (self s) 0 available (replicate (length available) [], []);
            ann =
              (if allReadOnly available
               then (annotation def)\<lparr>ReadOnlyHint := boolPtr True, DestructiveHint := boolPtr False\<rparr>
               else annotation def);
            tool = NewTool (metaToolDef.name def)
              [WithDescription (description def),
               WithToolAnnotation ann,
               WithString ''action''
                 [RequiredOpt,
                  DescriptionOpt (''The operation to perform. Available actions: '' @
                                  Join actionNames '', ''),
                  EnumOpt actionNames]]
        in s\<lparr>srv := AddTool (srv s) tool (makeMetaHandler rangeOrder (metaToolDef.name def) handlers)\<rparr>)"

text \<open>The loop of \<^verbatim>\<open>RegisterMetaTools\<close> over the definitions, and the method itself.\<close>

fun registerAll ::
  "('w \<Rightarrow> string list \<Rightarrow> string list) \<Rightarrow> ('p, ('c, 'e, 'w) ToolHandlerFunc) PortainerMCPServer \<Rightarrow>
   ('p, ('c, 'e, 'w) ToolHandlerFunc) metaToolDef list \<Rightarrow>
   ('p, ('c, 'e, 'w) ToolHandlerFunc) PortainerMCPServer" where
  "registerAll rangeOrder s [] = s"
| "registerAll rangeOrder s (def # defs) =
     registerAll rangeOrder (registerOneMetaTool rangeOrder s def) defs"

definition RegisterMetaTools ::
  "('w \<Rightarrow> string list \<Rightarrow> string list) \<Rightarrow> (string \<Rightarrow> 'p \<Rightarrow> ('c, 'e, 'w) ToolHandlerFunc) \<Rightarrow>
   ('p, ('c, 'e, 'w) ToolHandlerFunc) PortainerMCPServer \<Rightarrow>
   ('p, ('c, 'e, 'w) ToolHandlerFunc) PortainerMCPServer" where
  "RegisterMetaTools rangeOrder meth s = registerAll rangeOrder s (metaToolDefinitions meth)"

section \<open>The specification's vocabulary\<close>

text \<open>
  The Mode Filter as the specification words it: an action is included iff
  \<^verbatim>\<open>!restrictedMode || action.visibleWhenRestricted\<close>; the order of declaration is kept.
\<close>

definition modeFilter :: "bool \<Rightarrow> ('p, 'h) metaAction list \<Rightarrow> ('p, 'h) metaAction list" where
  "modeFilter restrictedMode as = filter (\<lambda>a. \<not> restrictedMode \<or> metaAction.readOnly a) as"

text \<open>The action names of a catalog, over all its groups, in order.\<close>

definition catalogActionNames :: "('p, 'h) metaToolDef list \<Rightarrow> string list" where
  "catalogActionNames defs = concat (map (\<lambda>d. map metaAction.name (actions d)) defs)"

text \<open>
  The strings of the \<^verbatim>\<open>enum\<close> of a tool's \<^verbatim>\<open>action\<close> property, read from the input schema
  the way the tests read it (\<^verbatim>\<open>InputSchema.Properties["action"]\<close>, then \<^verbatim>\<open>"enum"\<close>).
\<close>

definition actionEnum :: "Tool \<Rightarrow> string list" where
  "actionEnum t =
     (case map_of (Properties (InputSchema t)) ''action'' of
        None \<Rightarrow> []
      | Some schema \<Rightarrow>
          (case map_of schema ''enum'' of
             Some (AnyArray vs) \<Rightarrow> concat (map (\<lambda>v. case v of AnyString x \<Rightarrow> [x] | _ \<Rightarrow> []) vs)
           | _ \<Rightarrow> []))"

text \<open>
  Closed forms of what \<^verbatim>\<open>registerOneMetaTool\<close> builds from the permitted actions: the
  dispatch table (the assignments \<^verbatim>\<open>handlers[a.name] = a.handler(s)\<close> in order) and the
  tool. The lemmas below prove that the loops compute them.
\<close>

definition dispatchTable :: "'p \<Rightarrow> ('p, 'h) metaAction list \<Rightarrow> (string, 'h) gomap" where
  "dispatchTable p as = fold (\<lambda>a. AList.update (metaAction.name a) (handler a p)) as []"

definition builtTool :: "('p, 'h) metaToolDef \<Rightarrow> ('p, 'h) metaAction list \<Rightarrow> Tool" where
  "builtTool def available =
     \<lparr>Name = metaToolDef.name def, Description = description def,
      InputSchema =
        \<lparr>Type = ''object'',
         Properties =
           [(''action'',
             [(''type'', AnyString ''string''),
              (''description'',
               AnyString (''The operation to perform. Available actions: '' @
                          Join (map metaAction.name available) '', '')),
              (''enum'', AnyArray (map AnyString (map metaAction.name available)))])],
         Required = [''action'']\<rparr>,
      Annotations =
        (if list_all metaAction.readOnly available
         then (annotation def)\<lparr>ReadOnlyHint := Some True, DestructiveHint := Some False\<rparr>
         else annotation def)\<rparr>"

section \<open>Test fixtures\<close>

text \<open>
  A handler that answers with its tag and appends the tag to the world, which here is
  the log of the handlers that ran; the server of the tests (\<^verbatim>\<open>newTestMetaServer\<close>);
  a group \<^verbatim>\<open>users\<close> with one read action and one write action; a group with write
  actions only; a request with given arguments.
\<close>

definition exHandler :: "string \<Rightarrow> unit \<Rightarrow> (unit, unit, string list) ToolHandlerFunc" where
  "exHandler tag p = (\<lambda>ctx request w. ((Some (NewToolResultText tag), None), w @ [tag]))"

text \<open>A runtime that ranges over the keys of a map in the order they were inserted.\<close>

definition inOrder :: "string list \<Rightarrow> string list \<Rightarrow> string list" where
  "inOrder w ks = ks"

definition newTestMetaServer ::
  "bool \<Rightarrow> (unit, (unit, unit, string list) ToolHandlerFunc) PortainerMCPServer" where
  "newTestMetaServer ro = \<lparr>self = (), srv = \<lparr>tools = []\<rparr>, PortainerMCPServer.readOnly = ro\<rparr>"

definition usersDef :: "(unit, (unit, unit, string list) ToolHandlerFunc) metaToolDef" where
  "usersDef =
     \<lparr>metaToolDef.name = ''users'', description = ''Manage users'',
      actions =
        [\<lparr>metaAction.name = ''list_users'', handler = exHandler ''list_users'',
          metaAction.readOnly = True\<rparr>,
         \<lparr>metaAction.name = ''create_user'', handler = exHandler ''create_user'',
          metaAction.readOnly = False\<rparr>],
      annotation = \<lparr>Title = ''Users'', ReadOnlyHint = Some False, DestructiveHint = Some True,
        IdempotentHint = Some True, OpenWorldHint = Some False\<rparr>\<rparr>"

definition callWith :: "(string \<times> any) list \<Rightarrow> CallToolRequest" where
  "callWith args = \<lparr>ToolName = ''users'', Arguments = AnyObject (map_of args)\<rparr>"

definition writeOnlyDef :: "(unit, (unit, unit, string list) ToolHandlerFunc) metaToolDef" where
  "writeOnlyDef =
     \<lparr>metaToolDef.name = ''writers'', description = ''Write operations'',
      actions =
        [\<lparr>metaAction.name = ''create_thing'', handler = exHandler ''create_thing'',
          metaAction.readOnly = False\<rparr>],
      annotation = \<lparr>Title = ''Writers'', ReadOnlyHint = Some False, DestructiveHint = Some True,
        IdempotentHint = Some False, OpenWorldHint = Some False\<rparr>\<rparr>"

text \<open>A group whose single action is named by the empty string.\<close>

definition blankDef :: "(unit, (unit, unit, string list) ToolHandlerFunc) metaToolDef" where
  "blankDef =
     \<lparr>metaToolDef.name = ''blank'', description = ''One unnamed action'',
      actions =
        [\<lparr>metaAction.name = [], handler = exHandler ''ran'', metaAction.readOnly = True\<rparr>],
      annotation = \<lparr>Title = ''Blank'', ReadOnlyHint = Some True, DestructiveHint = Some False,
        IdempotentHint = Some True, OpenWorldHint = Some False\<rparr>\<rparr>"



section \<open>The loops in closed form\<close>

lemma filterActions_eq: "filterActions ro as acc = acc @ modeFilter ro as"
  by (induction as arbitrary: acc) (auto simp: modeFilter_def)

lemma buildDispatch_names:
  "i + length as \<le> length ns \<Longrightarrow>
   fst (buildDispatch s i as (ns, hs)) = take i ns @ map metaAction.name as @ drop (i + length as) ns"
proof (induction as arbitrary: i ns hs)
  case Nil
  then show ?case by simp
next
  case (Cons a as)
  have "i < length ns" using Cons.prems by simp
  then have t: "take (Suc i) (ns[i := metaAction.name a]) = take i ns @ [metaAction.name a]"
    by (simp add: take_Suc_conv_app_nth)
  have d: "drop (Suc i + length as) (ns[i := metaAction.name a]) = drop (Suc i + length as) ns"
    by simp
  have "Suc i + length as \<le> length (ns[i := metaAction.name a])" using Cons.prems by simp
  then have "fst (buildDispatch s (Suc i) as
                (ns[i := metaAction.name a], AList.update (metaAction.name a) (handler a s) hs)) =
             take (Suc i) (ns[i := metaAction.name a]) @ map metaAction.name as @
             drop (Suc i + length as) (ns[i := metaAction.name a])"
    by (rule Cons.IH)
  then show ?case unfolding t d by simp
qed

lemma buildDispatch_handlers:
  "snd (buildDispatch s i as (ns, hs)) =
   fold (\<lambda>a. AList.update (metaAction.name a) (handler a s)) as hs"
  by (induction as arbitrary: i ns hs) auto

lemma find_snoc:
  "List.find P (xs @ [x]) = (case List.find P xs of Some y \<Rightarrow> Some y | None \<Rightarrow> if P x then Some x else None)"
  by (induction xs) auto

lemma map_of_fold_update:
  "map_of (fold (\<lambda>a. AList.update (f a) (g a)) as hs) k =
   (case List.find (\<lambda>a. f a = k) (rev as) of Some a \<Rightarrow> Some (g a) | None \<Rightarrow> map_of hs k)"
proof (induction as arbitrary: hs)
  case Nil
  then show ?case by simp
next
  case (Cons a as)
  show ?case
    by (simp add: Cons.IH find_snoc update_conv' split: option.splits)
qed

lemma keys_fold_update:
  "set (map fst (fold (\<lambda>a. AList.update (f a) (g a)) as hs)) = set (map fst hs) \<union> f ` set as"
  by (induction as arbitrary: hs) (auto simp: dom_update)

lemma distinct_fold_update:
  "distinct (map fst hs) \<Longrightarrow> distinct (map fst (fold (\<lambda>a. AList.update (f a) (g a)) as hs))"
  by (induction as arbitrary: hs) (auto simp: distinct_update)

lemma allReadOnly_iff: "allReadOnly as = list_all metaAction.readOnly as"
  by (induction as) auto

lemma buildDispatch_full:
  "buildDispatch p 0 as (replicate (length as) [], []) =
   (map metaAction.name as, dispatchTable p as)"
proof (rule prod_eqI)
  show "fst (buildDispatch p 0 as (replicate (length as) [], [])) =
        fst (map metaAction.name as, dispatchTable p as)"
    by (simp add: buildDispatch_names)
  show "snd (buildDispatch p 0 as (replicate (length as) [], [])) =
        snd (map metaAction.name as, dispatchTable p as)"
    by (simp add: buildDispatch_handlers dispatchTable_def)
qed

lemma registerOneMetaTool_skip:
  "modeFilter (readOnly s) (actions def) = [] \<Longrightarrow> registerOneMetaTool rng s def = s"
  by (simp add: registerOneMetaTool_def filterActions_eq)

lemma registerOneMetaTool_entry:
  assumes "modeFilter (readOnly s) (actions def) \<noteq> []"
  shows "registerOneMetaTool rng s def =
         s\<lparr>srv := (srv s)\<lparr>tools :=
             AList.update (metaToolDef.name def)
               \<lparr>Tool = builtTool def (modeFilter (readOnly s) (actions def)),
                Handler = makeMetaHandler rng (metaToolDef.name def)
                            (dispatchTable (self s) (modeFilter (readOnly s) (actions def)))\<rparr>
               (tools (srv s))\<rparr>\<rparr>"
  using assms
  by (simp add: registerOneMetaTool_def filterActions_eq Let_def buildDispatch_full
      NewTool_def WithDescription_def WithToolAnnotation_def WithString_def RequiredOpt_def
      DescriptionOpt_def EnumOpt_def AddTool_def allReadOnly_iff boolPtr_def builtTool_def)

lemma registered_lookup:
  assumes "modeFilter (readOnly s) (actions def) \<noteq> []"
  shows "map_of (tools (srv (registerOneMetaTool rng s def))) (metaToolDef.name def) =
         Some \<lparr>Tool = builtTool def (modeFilter (readOnly s) (actions def)),
               Handler = makeMetaHandler rng (metaToolDef.name def)
                           (dispatchTable (self s) (modeFilter (readOnly s) (actions def)))\<rparr>"
  by (simp add: registerOneMetaTool_entry[OF assms] update_conv')

lemma actionEnum_builtTool: "actionEnum (builtTool def as) = map metaAction.name as"
  by (simp add: actionEnum_def builtTool_def comp_def)

lemma dispatchTable_lookup:
  "map_of (dispatchTable p as) k =
   map_option (\<lambda>a. handler a p) (List.find (\<lambda>a. metaAction.name a = k) (rev as))"
  by (simp add: dispatchTable_def map_of_fold_update split: option.splits)

lemma dispatchTable_keys: "set (map fst (dispatchTable p as)) = metaAction.name ` set as"
  unfolding dispatchTable_def keys_fold_update by simp

lemma dispatchTable_distinct: "distinct (map fst (dispatchTable p as))"
  unfolding dispatchTable_def by (rule distinct_fold_update) simp

lemma find_rev_None: "(List.find P (rev xs) = None) = (\<forall>x\<in>set xs. \<not> P x)"
  by (auto simp: find_None_iff)

lemma makeMetaHandler_found:
  assumes "GetArguments request ''action'' = Some (AnyString X)" and "X \<noteq> []"
    and "map_of handlers X = Some h"
  shows "makeMetaHandler rng nm handlers ctx request w = h ctx request w"
  using assms by (simp add: makeMetaHandler_def)

lemma makeMetaHandler_missing:
  assumes "GetArguments request ''action'' = None"
  shows "makeMetaHandler rng nm handlers ctx request w =
         ((Some (NewToolResultError ''missing required parameter: action''), None), w)"
  using assms by (simp add: makeMetaHandler_def)

lemma makeMetaHandler_not_string:
  assumes "GetArguments request ''action'' = Some v" and "\<forall>x. v \<noteq> AnyString x"
  shows "makeMetaHandler rng nm handlers ctx request w =
         ((Some (NewToolResultError
            (''parameter '' @ [CHR 0x27] @ ''action'' @ [CHR 0x27] @
             '' must be a non-empty string'')), None), w)"
  using assms by (cases v) (simp_all add: makeMetaHandler_def)

lemma makeMetaHandler_empty:
  assumes "GetArguments request ''action'' = Some (AnyString [])"
  shows "makeMetaHandler rng nm handlers ctx request w =
         ((Some (NewToolResultError
            (''parameter '' @ [CHR 0x27] @ ''action'' @ [CHR 0x27] @
             '' must be a non-empty string'')), None), w)"
  using assms by (simp add: makeMetaHandler_def)

lemma makeMetaHandler_unknown:
  assumes "GetArguments request ''action'' = Some (AnyString X)" and "X \<noteq> []"
    and "map_of handlers X = None"
  shows "makeMetaHandler rng nm handlers ctx request w =
         ((Some (NewToolResultError
            (''unknown action '' @ [CHR 0x27] @ X @ [CHR 0x27] @
             '' for tool '' @ [CHR 0x27] @ nm @ [CHR 0x27] @
             ''. Available actions: '' @ Join (rng w (map fst handlers)) '', '')), None), w)"
  using assms by (simp add: makeMetaHandler_def)

lemma filtered_set: "set (modeFilter ro as) = {a \<in> set as. \<not> ro \<or> metaAction.readOnly a}"
  by (auto simp: modeFilter_def)

lemma users_restricted: "modeFilter True (actions usersDef) = [hd (actions usersDef)]"
  by (simp add: modeFilter_def usersDef_def)

lemma users_unrestricted: "modeFilter False (actions usersDef) = actions usersDef"
  by (simp add: modeFilter_def usersDef_def)

lemma newTestMetaServer_readOnly: "PortainerMCPServer.readOnly (newTestMetaServer ro) = ro"
  by (simp add: newTestMetaServer_def)

lemma usersDef_name: "metaToolDef.name usersDef = ''users''"
  by (simp add: usersDef_def)

lemma users_restricted_set:
  "{a \<in> set (actions usersDef).
      \<not> PortainerMCPServer.readOnly (newTestMetaServer True) \<or> metaAction.readOnly a} =
   set [hd (actions usersDef)]"
  unfolding filtered_set[symmetric] newTestMetaServer_readOnly users_restricted ..

lemma writeOnly_restricted_set:
  "{a \<in> set (actions writeOnlyDef).
      \<not> PortainerMCPServer.readOnly (newTestMetaServer True) \<or> metaAction.readOnly a} = {}"
  unfolding filtered_set[symmetric] newTestMetaServer_readOnly
  by (simp add: modeFilter_def writeOnlyDef_def)

lemma users_first_name: "metaAction.name (hd (actions usersDef)) = ''list_users''"
  by (simp add: usersDef_def)

lemma users_first_readOnly: "metaAction.readOnly (hd (actions usersDef))"
  by (simp add: usersDef_def)

lemma users_names: "map metaAction.name (actions usersDef) = [''list_users'', ''create_user'']"
  by (simp add: usersDef_def)

lemma users_not_all_readOnly: "\<not> (\<forall>a \<in> set (actions usersDef). metaAction.readOnly a)"
  by (simp add: usersDef_def)

lemma users_actions_nonempty: "actions usersDef \<noteq> []"
  by (simp add: usersDef_def)

lemma users_annotation:
  "annotation usersDef = \<lparr>Title = ''Users'', ReadOnlyHint = Some False,
      DestructiveHint = Some True, IdempotentHint = Some True, OpenWorldHint = Some False\<rparr>"
  by (simp add: usersDef_def)

section \<open>What registration leaves on the server\<close>

lemma registerOneMetaTool_readOnly:
  "PortainerMCPServer.readOnly (registerOneMetaTool rng s def) = PortainerMCPServer.readOnly s"
proof (cases "modeFilter (PortainerMCPServer.readOnly s) (actions def) = []")
  case True
  then show ?thesis by (simp only: registerOneMetaTool_skip)
next
  case False
  show ?thesis unfolding registerOneMetaTool_entry[OF False] by simp
qed

lemma registerOneMetaTool_self: "self (registerOneMetaTool rng s def) = self s"
proof (cases "modeFilter (PortainerMCPServer.readOnly s) (actions def) = []")
  case True
  then show ?thesis by (simp only: registerOneMetaTool_skip)
next
  case False
  show ?thesis unfolding registerOneMetaTool_entry[OF False] by simp
qed

lemma keys_update:
  "map fst (AList.update k v al) = (if k \<in> set (map fst al) then map fst al else map fst al @ [k])"
  by (induction al) auto

lemma registerOneMetaTool_keys:
  "map fst (tools (srv (registerOneMetaTool rng s def))) =
   (if modeFilter (PortainerMCPServer.readOnly s) (actions def) = []
      \<or> metaToolDef.name def \<in> set (map fst (tools (srv s)))
    then map fst (tools (srv s))
    else map fst (tools (srv s)) @ [metaToolDef.name def])"
proof (cases "modeFilter (PortainerMCPServer.readOnly s) (actions def) = []")
  case True
  then show ?thesis by (simp only: registerOneMetaTool_skip) simp
next
  case False
  show ?thesis unfolding registerOneMetaTool_entry[OF False] using False
    by (simp add: keys_update)
qed



lemma registerAll_key_set:
  "set (map fst (tools (srv (registerAll rng s defs)))) =
   set (map fst (tools (srv s))) \<union>
   metaToolDef.name ` {d \<in> set defs. modeFilter (PortainerMCPServer.readOnly s) (actions d) \<noteq> []}"
proof (induction defs arbitrary: s)
  case Nil
  then show ?case by simp
next
  case (Cons d defs)
  have "set (map fst (tools (srv (registerOneMetaTool rng s d)))) =
        set (map fst (tools (srv s))) \<union>
        (if modeFilter (PortainerMCPServer.readOnly s) (actions d) = [] then {}
         else {metaToolDef.name d})"
    unfolding registerOneMetaTool_keys by auto
  then show ?case
    unfolding registerAll.simps Cons.IH registerOneMetaTool_readOnly by auto
qed

lemma registerAll_keys_fresh:
  assumes "distinct (map fst (tools (srv s)) @ map metaToolDef.name defs)"
    and "\<forall>d \<in> set defs. modeFilter (PortainerMCPServer.readOnly s) (actions d) \<noteq> []"
  shows "map fst (tools (srv (registerAll rng s defs))) =
         map fst (tools (srv s)) @ map metaToolDef.name defs"
  using assms
proof (induction defs arbitrary: s)
  case Nil
  then show ?case by simp
next
  case (Cons d defs)
  have k: "map fst (tools (srv (registerOneMetaTool rng s d))) =
           map fst (tools (srv s)) @ [metaToolDef.name d]"
    unfolding registerOneMetaTool_keys using Cons.prems by auto
  have "map fst (tools (srv (registerAll rng (registerOneMetaTool rng s d) defs))) =
        map fst (tools (srv (registerOneMetaTool rng s d))) @ map metaToolDef.name defs"
  proof (rule Cons.IH)
    show "distinct (map fst (tools (srv (registerOneMetaTool rng s d))) @
                    map metaToolDef.name defs)"
      unfolding k using Cons.prems(1) by auto
    show "\<forall>x \<in> set defs.
            modeFilter (PortainerMCPServer.readOnly (registerOneMetaTool rng s d)) (actions x) \<noteq> []"
      unfolding registerOneMetaTool_readOnly using Cons.prems(2) by simp
  qed
  then show ?case unfolding registerAll.simps k by simp
qed

lemma modeFilter_nonempty: "list_ex metaAction.readOnly as \<Longrightarrow> modeFilter ro as \<noteq> []"
  by (auto simp: modeFilter_def list_ex_iff filter_empty_conv)

section \<open>Facts about the catalog\<close>

lemma catalog_has_readOnly:
  "list_all (\<lambda>d. list_ex metaAction.readOnly (actions d)) (metaToolDefinitions meth)"
  by (simp add: metaToolDefinitions_def)

lemma catalog_length: "length (metaToolDefinitions meth) = 15"
  by (simp add: metaToolDefinitions_def)

lemma catalog_group_names:
  "map metaToolDef.name (metaToolDefinitions meth) =
   [''manage_environments'', ''manage_stacks'', ''manage_access_groups'', ''manage_users'',
    ''manage_teams'', ''manage_docker'', ''manage_kubernetes'', ''manage_helm'',
    ''manage_registries'', ''manage_templates'', ''manage_backups'', ''manage_webhooks'',
    ''manage_edge'', ''manage_settings'', ''manage_system'']"
  by (simp add: metaToolDefinitions_def)

lemma catalog_group_names_distinct:
  "distinct (map metaToolDef.name (metaToolDefinitions meth))"
  unfolding catalog_group_names by simp

section \<open>The router of a registered entry\<close>

lemma modeFilter_find:
  assumes "X \<in> metaAction.name ` set (modeFilter ro as)"
  shows "\<exists>a. List.find (\<lambda>a. metaAction.name a = X) (rev (modeFilter ro as)) = Some a"
proof (cases "List.find (\<lambda>a. metaAction.name a = X) (rev (modeFilter ro as))")
  case None
  then have "\<forall>a \<in> set (modeFilter ro as). metaAction.name a \<noteq> X"
    by (simp only: find_rev_None)
  with assms show ?thesis by auto
next
  case (Some a)
  then show ?thesis by blast
qed

lemma dispatchTable_absent:
  assumes "X \<notin> metaAction.name ` set as"
  shows "map_of (dispatchTable p as) X = None"
proof -
  have "\<forall>a \<in> set as. metaAction.name a \<noteq> X" using assms by auto
  then have "List.find (\<lambda>a. metaAction.name a = X) (rev as) = None"
    by (simp only: find_rev_None)
  then show ?thesis by (simp add: dispatchTable_lookup)
qed

lemma error_result_shape:
  "NewToolResultError msg = \<lparr>Content = [TextContent msg], IsError = True\<rparr>"
  by (simp add: NewToolResultError_def)

lemma blank_unrestricted: "modeFilter False (actions blankDef) = actions blankDef"
  by (simp add: modeFilter_def blankDef_def)

lemma blank_actions: "actions blankDef \<noteq> []"
  by (simp add: blankDef_def)

lemma blankDef_name: "metaToolDef.name blankDef = ''blank''"
  by (simp add: blankDef_def)

lemma blank_names: "map metaAction.name (actions blankDef) = [[]]"
  by (simp add: blankDef_def)

lemma blank_handler:
  "handler (hd (actions blankDef)) () () request [] =
   ((Some (NewToolResultText ''ran''), None), [''ran''])"
  by (simp add: blankDef_def exHandler_def)

lemma callWith_arguments: "GetArguments (callWith args) = map_of args"
  by (simp add: GetArguments_def callWith_def)

section \<open>Registering a catalog with duplicates\<close>










section \<open>Registration: filtering, enum, annotation\<close>

text \<open>
  C1. For every group definition and either mode, the action names in the \<^verbatim>\<open>action\<close> enum
  of the registered entry are, as a set, the names of the group's actions \<open>a\<close> with
  \<^verbatim>\<open>!readOnlyMode || a.readOnly\<close>; and when no action passes the filter, registration is
  skipped: the server is returned as it was, so the group has no entry.
\<close>

theorem C1_enum_is_filtered_set:
  "({a \<in> set (actions def). \<not> PortainerMCPServer.readOnly s \<or> metaAction.readOnly a} = {} \<longrightarrow>
      registerOneMetaTool rng s def = s) \<and>
   ({a \<in> set (actions def). \<not> PortainerMCPServer.readOnly s \<or> metaAction.readOnly a} \<noteq> {} \<longrightarrow>
      (\<exists>e. map_of (tools (srv (registerOneMetaTool rng s def))) (metaToolDef.name def) = Some e \<and>
           Name (Tool e) = metaToolDef.name def \<and>
           set (actionEnum (Tool e)) =
             metaAction.name `
               {a \<in> set (actions def). \<not> PortainerMCPServer.readOnly s \<or> metaAction.readOnly a}))"
proof (intro conjI impI)
  assume "{a \<in> set (actions def). \<not> PortainerMCPServer.readOnly s \<or> metaAction.readOnly a} = {}"
  then have "modeFilter (PortainerMCPServer.readOnly s) (actions def) = []"
    by (simp only: filtered_set[symmetric] set_empty)
  then show "registerOneMetaTool rng s def = s"
    by (rule registerOneMetaTool_skip)
next
  assume "{a \<in> set (actions def). \<not> PortainerMCPServer.readOnly s \<or> metaAction.readOnly a} \<noteq> {}"
  then have ne: "modeFilter (PortainerMCPServer.readOnly s) (actions def) \<noteq> []"
    by (simp only: filtered_set[symmetric] set_empty not_False_eq_True)
  show "\<exists>e. map_of (tools (srv (registerOneMetaTool rng s def))) (metaToolDef.name def) = Some e \<and>
           Name (Tool e) = metaToolDef.name def \<and>
           set (actionEnum (Tool e)) =
             metaAction.name `
               {a \<in> set (actions def). \<not> PortainerMCPServer.readOnly s \<or> metaAction.readOnly a}"
    unfolding registered_lookup[OF ne]
    by (simp add: actionEnum_builtTool filtered_set) (simp add: builtTool_def)
qed

theorem C1_witness:
  "set (actionEnum (Tool (the (map_of
      (tools (srv (registerOneMetaTool inOrder (newTestMetaServer True) usersDef)))
      ''users'')))) = {''list_users''} \<and>
   registerOneMetaTool inOrder (newTestMetaServer True) writeOnlyDef = newTestMetaServer True"
proof
  note A = C1_enum_is_filtered_set[where def = usersDef and s = "newTestMetaServer True"
        and rng = inOrder, unfolded users_restricted_set usersDef_name, THEN conjunct2, rule_format]
  have "set [hd (actions usersDef)] \<noteq> {}" by simp
  from A[OF this] obtain e where
    e: "map_of (tools (srv (registerOneMetaTool inOrder (newTestMetaServer True) usersDef)))
          ''users'' = Some e"
    and s: "set (actionEnum (Tool e)) = metaAction.name ` set [hd (actions usersDef)]"
    by blast
  show "set (actionEnum (Tool (the (map_of
      (tools (srv (registerOneMetaTool inOrder (newTestMetaServer True) usersDef)))
      ''users'')))) = {''list_users''}"
    unfolding e option.sel s by (simp add: users_first_name)
next
  note B = C1_enum_is_filtered_set[where def = writeOnlyDef and s = "newTestMetaServer True"
        and rng = inOrder, unfolded writeOnly_restricted_set, THEN conjunct1, rule_format]
  show "registerOneMetaTool inOrder (newTestMetaServer True) writeOnlyDef = newTestMetaServer True"
    by (rule B) (rule refl)
qed

text \<open>
  C2. For every group definition and either mode, when the group is registered: if every
  action left by the filter is read-only, the entry's annotation has
  \<^verbatim>\<open>ReadOnlyHint = true\<close> and \<^verbatim>\<open>DestructiveHint = false\<close>, whatever the group declares;
  otherwise the entry's annotation is the declared one, unchanged.
\<close>

theorem C2_annotation:
  assumes "modeFilter (PortainerMCPServer.readOnly s) (actions def) \<noteq> []"
  shows "\<exists>e. map_of (tools (srv (registerOneMetaTool rng s def))) (metaToolDef.name def) = Some e \<and>
     ((\<forall>a \<in> set (modeFilter (PortainerMCPServer.readOnly s) (actions def)). metaAction.readOnly a) \<longrightarrow>
        ReadOnlyHint (Annotations (Tool e)) = Some True \<and>
        DestructiveHint (Annotations (Tool e)) = Some False) \<and>
     (\<not> (\<forall>a \<in> set (modeFilter (PortainerMCPServer.readOnly s) (actions def)). metaAction.readOnly a) \<longrightarrow>
        Annotations (Tool e) = annotation def)"
  unfolding registered_lookup[OF assms]
  by (simp add: builtTool_def list_all_iff)

theorem C2_witness:
  "ReadOnlyHint (Annotations (Tool (the (map_of
      (tools (srv (registerOneMetaTool inOrder (newTestMetaServer True) usersDef)))
      ''users'')))) = Some True \<and>
   DestructiveHint (Annotations (Tool (the (map_of
      (tools (srv (registerOneMetaTool inOrder (newTestMetaServer True) usersDef)))
      ''users'')))) = Some False \<and>
   Annotations (Tool (the (map_of
      (tools (srv (registerOneMetaTool inOrder (newTestMetaServer False) usersDef)))
      ''users''))) = annotation usersDef"
proof -
  have a: "modeFilter True (actions usersDef) \<noteq> []"
    unfolding users_restricted by simp
  have b: "modeFilter False (actions usersDef) \<noteq> []"
    unfolding users_unrestricted by (rule users_actions_nonempty)
  have c: "\<forall>a \<in> set (modeFilter True (actions usersDef)). metaAction.readOnly a"
    unfolding users_restricted by (simp add: users_first_readOnly)
  have d: "\<not> (\<forall>a \<in> set (modeFilter False (actions usersDef)). metaAction.readOnly a)"
    unfolding users_unrestricted by (rule users_not_all_readOnly)
  from C2_annotation[where def = usersDef and s = "newTestMetaServer True"
      and rng = inOrder, unfolded newTestMetaServer_readOnly usersDef_name, OF a]
  obtain e where e: "map_of
      (tools (srv (registerOneMetaTool inOrder (newTestMetaServer True) usersDef)))
      ''users'' = Some e"
    and he: "(\<forall>a \<in> set (modeFilter True (actions usersDef)). metaAction.readOnly a) \<longrightarrow>
       ReadOnlyHint (Annotations (Tool e)) = Some True \<and>
       DestructiveHint (Annotations (Tool e)) = Some False"
    by blast
  from C2_annotation[where def = usersDef and s = "newTestMetaServer False"
      and rng = inOrder, unfolded newTestMetaServer_readOnly usersDef_name, OF b]
  obtain f where f: "map_of
      (tools (srv (registerOneMetaTool inOrder (newTestMetaServer False) usersDef)))
      ''users'' = Some f"
    and hf: "\<not> (\<forall>a \<in> set (modeFilter False (actions usersDef)). metaAction.readOnly a) \<longrightarrow>
       Annotations (Tool f) = annotation usersDef"
    by blast
  show ?thesis
    unfolding e f option.sel using he[THEN mp, OF c] hf[THEN mp, OF d] by blast
qed

text \<open>
  C8. For every group definition and either mode, when the group is registered, the
  \<^verbatim>\<open>action\<close> enum of the entry is the declared sequence of action names with the excluded
  actions removed, in the order of declaration, and the description of the \<^verbatim>\<open>action\<close>
  property lists the same sequence, joined by \<^verbatim>\<open>", "\<close>.
\<close>

theorem C8_enum_order:
  assumes "modeFilter (PortainerMCPServer.readOnly s) (actions def) \<noteq> []"
  shows "\<exists>e. map_of (tools (srv (registerOneMetaTool rng s def))) (metaToolDef.name def) = Some e \<and>
     actionEnum (Tool e) =
       map metaAction.name
         (filter (\<lambda>a. \<not> PortainerMCPServer.readOnly s \<or> metaAction.readOnly a) (actions def)) \<and>
     map_of (Properties (InputSchema (Tool e))) ''action'' =
       Some [(''type'', AnyString ''string''),
             (''description'',
              AnyString (''The operation to perform. Available actions: '' @
                Join (map metaAction.name
                  (filter (\<lambda>a. \<not> PortainerMCPServer.readOnly s \<or> metaAction.readOnly a)
                     (actions def))) '', '')),
             (''enum'',
              AnyArray (map AnyString (map metaAction.name
                (filter (\<lambda>a. \<not> PortainerMCPServer.readOnly s \<or> metaAction.readOnly a)
                   (actions def)))))]"
  unfolding registered_lookup[OF assms]
  by (simp add: actionEnum_builtTool) (simp add: builtTool_def modeFilter_def)

theorem C8_witness:
  "actionEnum (Tool (the (map_of
      (tools (srv (registerOneMetaTool inOrder (newTestMetaServer False) usersDef)))
      ''users''))) = [''list_users'', ''create_user''] \<and>
   map_of (Properties (InputSchema (Tool (the (map_of
      (tools (srv (registerOneMetaTool inOrder (newTestMetaServer False) usersDef)))
      ''users''))))) ''action'' =
     Some [(''type'', AnyString ''string''),
           (''description'',
            AnyString ''The operation to perform. Available actions: list_users, create_user''),
           (''enum'', AnyArray [AnyString ''list_users'', AnyString ''create_user''])]"
proof -
  have b: "modeFilter False (actions usersDef) \<noteq> []"
    unfolding users_unrestricted by (rule users_actions_nonempty)
  have n: "map metaAction.name
             (filter (\<lambda>a. \<not> False \<or> metaAction.readOnly a) (actions usersDef)) =
           [''list_users'', ''create_user'']"
    by (simp add: users_names)
  from C8_enum_order[where def = usersDef and s = "newTestMetaServer False"
      and rng = inOrder, unfolded newTestMetaServer_readOnly usersDef_name n, OF b]
  obtain e where e: "map_of
      (tools (srv (registerOneMetaTool inOrder (newTestMetaServer False) usersDef)))
      ''users'' = Some e"
    and en: "actionEnum (Tool e) = [''list_users'', ''create_user'']"
    and pr: "map_of (Properties (InputSchema (Tool e))) ''action'' =
       Some [(''type'', AnyString ''string''),
             (''description'',
              AnyString (''The operation to perform. Available actions: '' @
                Join [''list_users'', ''create_user''] '', '')),
             (''enum'', AnyArray (map AnyString [''list_users'', ''create_user'']))]"
    by blast
  show ?thesis
    unfolding e option.sel en pr by simp
qed

text \<open>
  C9. When every action left by the filter is read-only, so that the annotation is
  forced, only \<^verbatim>\<open>ReadOnlyHint\<close> and \<^verbatim>\<open>DestructiveHint\<close> are overridden: \<^verbatim>\<open>Title\<close>,
  \<^verbatim>\<open>IdempotentHint\<close> and \<^verbatim>\<open>OpenWorldHint\<close> of the entry are those the group declares.
\<close>

theorem C9_annotation_frame:
  assumes "modeFilter (PortainerMCPServer.readOnly s) (actions def) \<noteq> []"
    and "\<forall>a \<in> set (modeFilter (PortainerMCPServer.readOnly s) (actions def)). metaAction.readOnly a"
  shows "\<exists>e. map_of (tools (srv (registerOneMetaTool rng s def))) (metaToolDef.name def) = Some e \<and>
     Annotations (Tool e) =
       (annotation def)\<lparr>ReadOnlyHint := Some True, DestructiveHint := Some False\<rparr> \<and>
     Title (Annotations (Tool e)) = Title (annotation def) \<and>
     IdempotentHint (Annotations (Tool e)) = IdempotentHint (annotation def) \<and>
     OpenWorldHint (Annotations (Tool e)) = OpenWorldHint (annotation def)"
  unfolding registered_lookup[OF assms(1)]
  using assms(2) by (simp add: builtTool_def list_all_iff)

theorem C9_witness:
  "Annotations (Tool (the (map_of
      (tools (srv (registerOneMetaTool inOrder (newTestMetaServer True) usersDef)))
      ''users''))) =
   \<lparr>Title = ''Users'', ReadOnlyHint = Some True, DestructiveHint = Some False,
    IdempotentHint = Some True, OpenWorldHint = Some False\<rparr>"
proof -
  have a: "modeFilter True (actions usersDef) \<noteq> []"
    unfolding users_restricted by simp
  have c: "\<forall>a \<in> set (modeFilter True (actions usersDef)). metaAction.readOnly a"
    unfolding users_restricted by (simp add: users_first_readOnly)
  from C9_annotation_frame[where def = usersDef and s = "newTestMetaServer True"
      and rng = inOrder, unfolded newTestMetaServer_readOnly usersDef_name, OF a c]
  obtain e where e: "map_of
      (tools (srv (registerOneMetaTool inOrder (newTestMetaServer True) usersDef)))
      ''users'' = Some e"
    and an: "Annotations (Tool e) =
       (annotation usersDef)\<lparr>ReadOnlyHint := Some True, DestructiveHint := Some False\<rparr>"
    by blast
  show ?thesis
    unfolding e option.sel an users_annotation by simp
qed

section \<open>The catalog\<close>

text \<open>
  C6. In the catalog that \<^verbatim>\<open>metaToolDefinitions\<close> returns, no two actions, over all groups
  together, have the same name, and no two groups have the same name.
\<close>

theorem C6_catalog_names_unique:
  "distinct (catalogActionNames (metaToolDefinitions meth)) \<and>
   distinct (map metaToolDef.name (metaToolDefinitions meth))"
proof
  show "distinct (catalogActionNames (metaToolDefinitions meth))"
    by (simp add: metaToolDefinitions_def catalogActionNames_def)
  show "distinct (map metaToolDef.name (metaToolDefinitions meth))"
    by (rule catalog_group_names_distinct)
qed

text \<open>
  C10. Each of the 15 groups of the catalog has an action with \<^verbatim>\<open>readOnly == true\<close>. So in
  either mode \<^verbatim>\<open>RegisterMetaTools\<close> registers an entry for each of the 15 groups: the names
  of all groups are among the registered names whatever the server held before, and on
  a server with no tools the registered names are exactly the 15 group names, in the
  order of the catalog.
\<close>

theorem C10_all_groups_registered:
  "length (metaToolDefinitions meth) = 15 \<and>
   list_all (\<lambda>d. list_ex metaAction.readOnly (actions d)) (metaToolDefinitions meth) \<and>
   set (map metaToolDef.name (metaToolDefinitions meth))
     \<subseteq> set (map fst (tools (srv (RegisterMetaTools rng meth s)))) \<and>
   map fst (tools (srv (RegisterMetaTools rng meth
       \<lparr>self = p, srv = \<lparr>tools = []\<rparr>, PortainerMCPServer.readOnly = ro\<rparr>))) =
     map metaToolDef.name (metaToolDefinitions meth) \<and>
   length (tools (srv (RegisterMetaTools rng meth
       \<lparr>self = p, srv = \<lparr>tools = []\<rparr>, PortainerMCPServer.readOnly = ro\<rparr>))) = 15"
proof -
  have ne: "\<forall>d \<in> set (metaToolDefinitions meth). modeFilter m (actions d) \<noteq> []" for m
  proof
    fix d assume "d \<in> set (metaToolDefinitions meth)"
    then have "list_ex metaAction.readOnly (actions d)"
      using catalog_has_readOnly[of meth] by (simp add: list_all_iff)
    then show "modeFilter m (actions d) \<noteq> []" by (rule modeFilter_nonempty)
  qed
  have sub: "set (map metaToolDef.name (metaToolDefinitions meth))
     \<subseteq> set (map fst (tools (srv (RegisterMetaTools rng meth s))))"
    unfolding RegisterMetaTools_def registerAll_key_set using ne by auto
  have fresh: "map fst (tools (srv (RegisterMetaTools rng meth
       \<lparr>self = p, srv = \<lparr>tools = []\<rparr>, PortainerMCPServer.readOnly = ro\<rparr>))) =
     map metaToolDef.name (metaToolDefinitions meth)"
    unfolding RegisterMetaTools_def
    by (subst registerAll_keys_fresh) (simp_all add: catalog_group_names_distinct ne)
  have "length (map fst (tools (srv (RegisterMetaTools rng meth
       \<lparr>self = p, srv = \<lparr>tools = []\<rparr>, PortainerMCPServer.readOnly = ro\<rparr>)))) = 15"
    unfolding fresh by (simp add: catalog_length)
  then have len: "length (tools (srv (RegisterMetaTools rng meth
       \<lparr>self = p, srv = \<lparr>tools = []\<rparr>, PortainerMCPServer.readOnly = ro\<rparr>))) = 15"
    by simp
  show ?thesis
    using catalog_length catalog_has_readOnly sub fresh len by blast
qed

section \<open>The router\<close>

text \<open>
  C3, as the code has it. For every registered entry and every call whose \<^verbatim>\<open>action\<close> is a
  non-empty string \<open>X\<close> that names a permitted action of the group, the router runs
  the handler bound to \<open>X\<close> in the dispatch table (that of the last permitted action
  named \<open>X\<close>, the only one when names are unique) on the caller's context and the
  whole request, and returns what the handler returns: its result, its error and its
  effect on the world, and nothing else.
\<close>

theorem C3_dispatch_nonempty:
  assumes "GetArguments request ''action'' = Some (AnyString X)"
    and "X \<noteq> []"
    and "X \<in> metaAction.name ` set (modeFilter (PortainerMCPServer.readOnly s) (actions def))"
  shows "\<exists>e a. map_of (tools (srv (registerOneMetaTool rng s def))) (metaToolDef.name def) = Some e \<and>
     List.find (\<lambda>a. metaAction.name a = X)
       (rev (modeFilter (PortainerMCPServer.readOnly s) (actions def))) = Some a \<and>
     Handler e ctx request w = handler a (self s) ctx request w"
proof -
  from assms(3) have ne: "modeFilter (PortainerMCPServer.readOnly s) (actions def) \<noteq> []"
    by auto
  from modeFilter_find[OF assms(3)] obtain a where
    a: "List.find (\<lambda>a. metaAction.name a = X)
          (rev (modeFilter (PortainerMCPServer.readOnly s) (actions def))) = Some a"
    by blast
  then have t: "map_of (dispatchTable (self s)
                  (modeFilter (PortainerMCPServer.readOnly s) (actions def))) X =
                Some (handler a (self s))"
    by (simp add: dispatchTable_lookup)
  have "makeMetaHandler rng (metaToolDef.name def)
          (dispatchTable (self s) (modeFilter (PortainerMCPServer.readOnly s) (actions def)))
          ctx request w = handler a (self s) ctx request w"
    by (rule makeMetaHandler_found[OF assms(1) assms(2) t])
  then show ?thesis
    unfolding registered_lookup[OF ne] using a by simp
qed

theorem C3_witness:
  "Handler (the (map_of
      (tools (srv (registerOneMetaTool inOrder (newTestMetaServer True) usersDef)))
      ''users'')) () (callWith [(''action'', AnyString ''list_users''), (''page'', AnyNumber 2)]) [] =
   ((Some (NewToolResultText ''list_users''), None), [''list_users''])"
proof -
  have g: "GetArguments (callWith [(''action'', AnyString ''list_users''), (''page'', AnyNumber 2)])
             ''action'' = Some (AnyString ''list_users'')"
    by (simp add: callWith_arguments)
  have x: "''list_users'' \<noteq> []" by simp
  have m: "''list_users'' \<in> metaAction.name ` set (modeFilter True (actions usersDef))"
    unfolding users_restricted by (simp add: users_first_name)
  have f: "List.find (\<lambda>a. metaAction.name a = ''list_users'')
             (rev (modeFilter True (actions usersDef))) = Some (hd (actions usersDef))"
    unfolding users_restricted by (simp add: users_first_name)
  have h: "handler (hd (actions usersDef)) () () request [] =
           ((Some (NewToolResultText ''list_users''), None), [''list_users''])" for request
    by (simp add: usersDef_def exHandler_def)
  from C3_dispatch_nonempty[where def = usersDef and s = "newTestMetaServer True"
      and rng = inOrder and ctx = "()" and w = "[]",
      unfolded newTestMetaServer_readOnly usersDef_name, OF g x m]
  obtain e a where e: "map_of
      (tools (srv (registerOneMetaTool inOrder (newTestMetaServer True) usersDef)))
      ''users'' = Some e"
    and fa: "List.find (\<lambda>a. metaAction.name a = ''list_users'')
               (rev (modeFilter True (actions usersDef))) = Some a"
    and r: "Handler e ()
              (callWith [(''action'', AnyString ''list_users''), (''page'', AnyNumber 2)]) [] =
            handler a (self (newTestMetaServer True)) ()
              (callWith [(''action'', AnyString ''list_users''), (''page'', AnyNumber 2)]) []"
    by blast
  from fa f have "a = hd (actions usersDef)" by simp
  then show ?thesis
    unfolding e option.sel r by (simp add: h)
qed

text \<open>
  C3 as stated fails when the string \<open>X\<close> is empty: a group may declare an action named
  by the empty string, the entry then lists it in its enum and binds its handler, and
  a call with \<^verbatim>\<open>action = ""\<close> is answered by the router itself with the error for a
  parameter that is not a non-empty string; the handler does not run (the log stays
  empty).
\<close>

theorem C3_counterexample:
  "GetArguments (callWith [(''action'', AnyString [])]) ''action'' = Some (AnyString []) \<and>
   [] \<in> set (actionEnum (Tool (the (map_of
      (tools (srv (registerOneMetaTool inOrder (newTestMetaServer False) blankDef)))
      ''blank'')))) \<and>
   Handler (the (map_of
      (tools (srv (registerOneMetaTool inOrder (newTestMetaServer False) blankDef)))
      ''blank'')) () (callWith [(''action'', AnyString [])]) [] =
     ((Some (NewToolResultError
        (''parameter '' @ [CHR 0x27] @ ''action'' @ [CHR 0x27] @
         '' must be a non-empty string'')), None), []) \<and>
   handler (hd (actions blankDef)) () () (callWith [(''action'', AnyString [])]) [] =
     ((Some (NewToolResultText ''ran''), None), [''ran'']) \<and>
   Handler (the (map_of
      (tools (srv (registerOneMetaTool inOrder (newTestMetaServer False) blankDef)))
      ''blank'')) () (callWith [(''action'', AnyString [])]) [] \<noteq>
     handler (hd (actions blankDef)) () () (callWith [(''action'', AnyString [])]) []"
proof -
  have g: "GetArguments (callWith [(''action'', AnyString [])]) ''action'' = Some (AnyString [])"
    by (simp add: callWith_arguments)
  have ne: "modeFilter (PortainerMCPServer.readOnly (newTestMetaServer False)) (actions blankDef) \<noteq> []"
    unfolding newTestMetaServer_readOnly blank_unrestricted by (rule blank_actions)
  note look = registered_lookup[OF ne, of inOrder,
      unfolded newTestMetaServer_readOnly blankDef_name blank_unrestricted]
  have en: "[] \<in> set (actionEnum (Tool (the (map_of
      (tools (srv (registerOneMetaTool inOrder (newTestMetaServer False) blankDef)))
      ''blank''))))"
    unfolding look option.sel by (simp add: actionEnum_builtTool blank_names)
  have r: "Handler (the (map_of
      (tools (srv (registerOneMetaTool inOrder (newTestMetaServer False) blankDef)))
      ''blank'')) () (callWith [(''action'', AnyString [])]) [] =
     ((Some (NewToolResultError
        (''parameter '' @ [CHR 0x27] @ ''action'' @ [CHR 0x27] @
         '' must be a non-empty string'')), None), [])"
    unfolding look option.sel by (simp add: makeMetaHandler_empty[OF g])
  have d: "Handler (the (map_of
      (tools (srv (registerOneMetaTool inOrder (newTestMetaServer False) blankDef)))
      ''blank'')) () (callWith [(''action'', AnyString [])]) [] \<noteq>
     handler (hd (actions blankDef)) () () (callWith [(''action'', AnyString [])]) []"
    unfolding r blank_handler by simp
  show ?thesis using g en r blank_handler d by blast
qed

text \<open>
  C4. For every registered entry and every call whose \<^verbatim>\<open>action\<close> is missing, is not a
  string, is the empty string, or is a string that names no permitted action of the
  group, the router runs no handler (the world comes back as it was, whatever the
  handlers of the group do) and returns an error result, with the error flag set and a
  message, and a nil Go error.
\<close>

theorem C4_dispatch_safety:
  assumes "modeFilter (PortainerMCPServer.readOnly s) (actions def) \<noteq> []"
    and "GetArguments request ''action'' = None \<or>
         (\<exists>v. GetArguments request ''action'' = Some v \<and> (\<forall>x. v \<noteq> AnyString x)) \<or>
         GetArguments request ''action'' = Some (AnyString []) \<or>
         (\<exists>X. GetArguments request ''action'' = Some (AnyString X) \<and>
              X \<notin> metaAction.name ` set (modeFilter (PortainerMCPServer.readOnly s) (actions def)))"
  shows "\<exists>e msg. map_of (tools (srv (registerOneMetaTool rng s def))) (metaToolDef.name def) = Some e \<and>
     msg \<noteq> [] \<and>
     Handler e ctx request w = ((Some \<lparr>Content = [TextContent msg], IsError = True\<rparr>, None), w)"
proof -
  let ?tab = "dispatchTable (self s) (modeFilter (PortainerMCPServer.readOnly s) (actions def))"
  have I: "\<exists>msg. msg \<noteq> [] \<and> makeMetaHandler rng (metaToolDef.name def) ?tab ctx request w =
          ((Some (NewToolResultError msg), None), w)"
    if "makeMetaHandler rng (metaToolDef.name def) ?tab ctx request w =
          ((Some (NewToolResultError m), None), w)" and "m \<noteq> []" for m
    using that by (intro exI[of _ m] conjI)
  have "\<exists>msg. msg \<noteq> [] \<and> makeMetaHandler rng (metaToolDef.name def) ?tab ctx request w =
          ((Some (NewToolResultError msg), None), w)"
    using assms(2)
  proof (elim disjE exE conjE)
    assume "GetArguments request ''action'' = None"
    from makeMetaHandler_missing[OF this] show ?thesis by (rule I) simp
  next
    fix v assume "GetArguments request ''action'' = Some v" and "\<forall>x. v \<noteq> AnyString x"
    from makeMetaHandler_not_string[OF this] show ?thesis by (rule I) simp
  next
    assume "GetArguments request ''action'' = Some (AnyString [])"
    from makeMetaHandler_empty[OF this] show ?thesis by (rule I) simp
  next
    fix X assume g: "GetArguments request ''action'' = Some (AnyString X)"
      and x: "X \<notin> metaAction.name ` set (modeFilter (PortainerMCPServer.readOnly s) (actions def))"
    show ?thesis
    proof (cases "X = []")
      case True
      with g have "GetArguments request ''action'' = Some (AnyString [])" by simp
      from makeMetaHandler_empty[OF this] show ?thesis by (rule I) simp
    next
      case False
      from makeMetaHandler_unknown[OF g False dispatchTable_absent[OF x]] show ?thesis
        by (rule I) simp
    qed
  qed
  then obtain msg where m: "msg \<noteq> []"
    and r: "makeMetaHandler rng (metaToolDef.name def) ?tab ctx request w =
            ((Some (NewToolResultError msg), None), w)"
    by blast
  have h: "Handler \<lparr>Tool = builtTool def
              (modeFilter (PortainerMCPServer.readOnly s) (actions def)),
            Handler = makeMetaHandler rng (metaToolDef.name def) ?tab\<rparr> ctx request w =
           ((Some \<lparr>Content = [TextContent msg], IsError = True\<rparr>, None), w)"
    by (simp only: ServerTool.select_convs r error_result_shape)
  from registered_lookup[OF assms(1), of rng] m h show ?thesis by blast
qed

theorem C4_witness:
  "GetArguments (callWith []) ''action'' = None \<and>
   (\<exists>msg. msg \<noteq> [] \<and>
      Handler (the (map_of
        (tools (srv (registerOneMetaTool inOrder (newTestMetaServer True) usersDef)))
        ''users'')) () (callWith []) [] =
      ((Some \<lparr>Content = [TextContent msg], IsError = True\<rparr>, None), []))"
proof -
  have a: "modeFilter True (actions usersDef) \<noteq> []"
    unfolding users_restricted by simp
  have g: "GetArguments (callWith []) ''action'' = None"
    by (simp add: callWith_arguments)
  then have h: "GetArguments (callWith []) ''action'' = None \<or>
         (\<exists>v. GetArguments (callWith []) ''action'' = Some v \<and> (\<forall>x. v \<noteq> AnyString x)) \<or>
         GetArguments (callWith []) ''action'' = Some (AnyString []) \<or>
         (\<exists>X. GetArguments (callWith []) ''action'' = Some (AnyString X) \<and>
              X \<notin> metaAction.name ` set (modeFilter True (actions usersDef)))"
    by (rule disjI1)
  from C4_dispatch_safety[where def = usersDef and s = "newTestMetaServer True"
      and rng = inOrder and ctx = "()" and w = "[]" and request = "callWith []",
      unfolded newTestMetaServer_readOnly usersDef_name, OF a h]
  obtain e msg where e: "map_of
      (tools (srv (registerOneMetaTool inOrder (newTestMetaServer True) usersDef)))
      ''users'' = Some e"
    and m: "msg \<noteq> []"
    and r: "Handler e () (callWith []) [] =
            ((Some \<lparr>Content = [TextContent msg], IsError = True\<rparr>, None), [])"
    by blast
  have "\<exists>msg. msg \<noteq> [] \<and>
      Handler (the (map_of
        (tools (srv (registerOneMetaTool inOrder (newTestMetaServer True) usersDef)))
        ''users'')) () (callWith []) [] =
      ((Some \<lparr>Content = [TextContent msg], IsError = True\<rparr>, None), [])"
    unfolding e option.sel using m r by blast
  with g show ?thesis by (rule conjI)
qed

text \<open>
  C5. For every registered entry and every call whose \<^verbatim>\<open>action\<close> is a non-empty string
  that names no permitted action, the error message is
  \<^verbatim>\<open>unknown action 'X' for tool 'N'. Available actions: \<close> followed by a list of names
  joined by \<^verbatim>\<open>", "\<close>. The list is the keys of the dispatch table in the order the
  runtime ranges over them; given that this order is a permutation of the keys, the
  names listed are, without repetition, exactly the names in the entry's enum, which
  are the names of the group's actions that pass the mode filter: no name that the
  filter leaves to no action is listed.
\<close>

theorem C5_unknown_action_lists_filtered:
  assumes "modeFilter (PortainerMCPServer.readOnly s) (actions def) \<noteq> []"
    and "GetArguments request ''action'' = Some (AnyString X)"
    and "X \<noteq> []"
    and "X \<notin> metaAction.name ` set (modeFilter (PortainerMCPServer.readOnly s) (actions def))"
    and "\<forall>ks. mset (rng w ks) = mset ks"
  shows "\<exists>e ks. map_of (tools (srv (registerOneMetaTool rng s def))) (metaToolDef.name def) = Some e \<and>
     Handler e ctx request w =
       ((Some (NewToolResultError
          (''unknown action '' @ [CHR 0x27] @ X @ [CHR 0x27] @
           '' for tool '' @ [CHR 0x27] @ metaToolDef.name def @ [CHR 0x27] @
           ''. Available actions: '' @ Join ks '', '')), None), w) \<and>
     distinct ks \<and>
     set ks = set (actionEnum (Tool e)) \<and>
     set ks = metaAction.name `
       {a \<in> set (actions def). \<not> PortainerMCPServer.readOnly s \<or> metaAction.readOnly a}"
proof -
  let ?av = "modeFilter (PortainerMCPServer.readOnly s) (actions def)"
  let ?tab = "dispatchTable (self s) ?av"
  let ?ks = "rng w (map fst ?tab)"
  have p: "mset ?ks = mset (map fst ?tab)" using assms(5) by blast
  have d: "distinct ?ks"
    using mset_eq_imp_distinct_iff[OF p] dispatchTable_distinct[of "self s" ?av] by simp
  have "set ?ks = set (map fst ?tab)" by (rule mset_eq_setD[OF p])
  then have k: "set ?ks = metaAction.name ` set ?av"
    by (simp only: dispatchTable_keys)
  have r: "makeMetaHandler rng (metaToolDef.name def) ?tab ctx request w =
       ((Some (NewToolResultError
          (''unknown action '' @ [CHR 0x27] @ X @ [CHR 0x27] @
           '' for tool '' @ [CHR 0x27] @ metaToolDef.name def @ [CHR 0x27] @
           ''. Available actions: '' @ Join ?ks '', '')), None), w)"
    by (rule makeMetaHandler_unknown[OF assms(2) assms(3) dispatchTable_absent[OF assms(4)]])
  have h: "Handler \<lparr>Tool = builtTool def ?av,
              Handler = makeMetaHandler rng (metaToolDef.name def) ?tab\<rparr> ctx request w =
       ((Some (NewToolResultError
          (''unknown action '' @ [CHR 0x27] @ X @ [CHR 0x27] @
           '' for tool '' @ [CHR 0x27] @ metaToolDef.name def @ [CHR 0x27] @
           ''. Available actions: '' @ Join ?ks '', '')), None), w)"
    by (simp only: ServerTool.select_convs r)
  have en: "set ?ks = set (actionEnum (Tool \<lparr>Tool = builtTool def ?av,
              Handler = makeMetaHandler rng (metaToolDef.name def) ?tab\<rparr>))"
    by (simp only: ServerTool.select_convs actionEnum_builtTool k set_map)
  have f: "set ?ks = metaAction.name `
       {a \<in> set (actions def). \<not> PortainerMCPServer.readOnly s \<or> metaAction.readOnly a}"
    by (simp only: k filtered_set)
  from registered_lookup[OF assms(1), of rng] h d en f show ?thesis by blast
qed

theorem C5_witness:
  "\<exists>ks. Handler (the (map_of
        (tools (srv (registerOneMetaTool inOrder (newTestMetaServer True) usersDef)))
        ''users'')) () (callWith [(''action'', AnyString ''create_user'')]) [] =
      ((Some (NewToolResultError
          (''unknown action '' @ [CHR 0x27] @ ''create_user'' @ [CHR 0x27] @
           '' for tool '' @ [CHR 0x27] @ ''users'' @ [CHR 0x27] @
           ''. Available actions: '' @ Join ks '', '')), None), []) \<and>
      distinct ks \<and> set ks = {''list_users''}"
proof -
  have a: "modeFilter True (actions usersDef) \<noteq> []"
    unfolding users_restricted by simp
  have g: "GetArguments (callWith [(''action'', AnyString ''create_user'')]) ''action'' =
           Some (AnyString ''create_user'')"
    by (simp add: callWith_arguments)
  have x: "''create_user'' \<noteq> []" by simp
  have m: "''create_user'' \<notin> metaAction.name ` set (modeFilter True (actions usersDef))"
    unfolding users_restricted by (simp add: users_first_name)
  have p: "\<forall>ks. mset (inOrder [] ks) = mset ks" by (simp add: inOrder_def)
  have f: "metaAction.name ` {a \<in> set (actions usersDef). \<not> True \<or> metaAction.readOnly a} =
           {''list_users''}"
    unfolding filtered_set[symmetric] users_restricted by (simp add: users_first_name)
  from C5_unknown_action_lists_filtered[where def = usersDef and s = "newTestMetaServer True"
      and rng = inOrder and ctx = "()" and w = "[]",
      unfolded newTestMetaServer_readOnly usersDef_name f, OF a g x m p]
  obtain e ks where e: "map_of
      (tools (srv (registerOneMetaTool inOrder (newTestMetaServer True) usersDef)))
      ''users'' = Some e"
    and r: "Handler e () (callWith [(''action'', AnyString ''create_user'')]) [] =
      ((Some (NewToolResultError
          (''unknown action '' @ [CHR 0x27] @ ''create_user'' @ [CHR 0x27] @
           '' for tool '' @ [CHR 0x27] @ ''users'' @ [CHR 0x27] @
           ''. Available actions: '' @ Join ks '', '')), None), [])"
    and d: "distinct ks" and k: "set ks = {''list_users''}"
    by blast
  show ?thesis
    unfolding e option.sel using r d k by blast
qed

section \<open>Registration makes no uniqueness check\<close>




end
